theory Spec2Isabelle
  imports Complex_Main
begin

section \<open>The mandala builder: pattern generator and SVG export\<close>

text \<open>
  The source is a single React module. Two parts of it are modelled here: the component
  \<open>MandalaCanvas\<close>, which turns a \<open>MandalaSpec\<close> into a tree of JSX elements, and the
  callback \<open>exportSVG\<close>, which rebuilds a standalone SVG document from the mounted DOM
  tree and hands it to the browser as a download.

  Numbers of the source are JavaScript numbers. The segment count and the loop counters
  are integers and are modelled as \<open>int\<close>; coordinates, angles and opacities are modelled
  as \<open>real\<close>, so the rounding of IEEE doubles and the decimal text that a template
  literal produces for a coordinate are not part of the model: a \<open>points\<close> attribute is
  kept as the list of its coordinate pairs.
\<close>

subsection \<open>Data of the source\<close>

datatype symmetry = Radial | Mirror

record MandalaSpec =
  segments :: int
  symmetry :: symmetry
  color :: string
  showWatermark :: bool

text \<open>
  A value of a JSX attribute: a number, a string, the coordinate pairs of a \<open>points\<close>
  string, a style object, a ref object (by its name), or \<open>null\<close>.
\<close>

datatype attr_value =
    PNum real
  | PStr string
  | PPoints "(real \<times> real) list"
  | PStyle "(string \<times> string) list"
  | PRef string
  | PNull

text \<open>
  What a JSX expression evaluates to: an element (tag, key, attributes, children), an
  array of elements, a text child, or one of the values \<open>null\<close> and \<open>false\<close> that a
  conditional child evaluates to.
\<close>

datatype jsx =
    Element string "string option" "(string \<times> attr_value) list" "jsx list"
  | JArray "jsx list"
  | JText string
  | JNull
  | JFalse

subsection \<open>Helpers of the source\<close>

definition clamp :: "int \<Rightarrow> int \<Rightarrow> int \<Rightarrow> int" where
  "clamp n mn mx = max mn (min mx n)"

text \<open>The decimal text of a loop counter, as a template literal inserts it.\<close>

function decimal :: "nat \<Rightarrow> string" where
  "decimal n =
     (if n < 10 then [''0123456789'' ! n]
      else decimal (n div 10) @ [''0123456789'' ! (n mod 10)])"
  by pat_completeness auto
termination
  by (relation "measure (\<lambda>n. n)") auto

definition key_of :: "string \<Rightarrow> int \<Rightarrow> string" where
  "key_of prefix i = prefix @ ''-'' @ decimal (nat i)"

subsection \<open>MandalaCanvas\<close>

definition cx :: real where "cx = 210"
definition cy :: real where "cy = 210"
definition outerR :: real where "outerR = 140"
definition innerR :: real where "innerR = outerR * 0.6"

text \<open>
  \<open>step = 360 / spec.segments\<close>. For \<open>segments = 0\<close> JavaScript yields \<open>Infinity\<close> where
  HOL yields \<open>0\<close>; the value is only read inside loops that run when \<open>0 < segments\<close>.
\<close>

definition step :: "MandalaSpec \<Rightarrow> real" where
  "step spec = 360 / real_of_int (segments spec)"

definition a2 :: "real \<Rightarrow> real" where
  "a2 angle = (angle * pi) / 180"

definition polygon :: "string \<Rightarrow> real \<times> real \<Rightarrow> real \<times> real \<Rightarrow> string \<Rightarrow> real \<Rightarrow> jsx" where
  "polygon k p1 p2 fill opacity =
     Element ''polygon'' (Some k)
       [(''points'', PPoints [(cx, cy), p1, p2]),
        (''fill'', PStr fill),
        (''opacity'', PNum opacity),
        (''stroke'', PStr ''none'')] []"

text \<open>The two elements pushed by one pass of the first loop.\<close>

definition outer_wedge :: "MandalaSpec \<Rightarrow> int \<Rightarrow> jsx" where
  "outer_wedge spec i =
     (let a1 = real_of_int i * step spec;
          aStart = a1;
          aEnd = a1 + step spec;
          p1 = (cx + cos (a2 aStart) * outerR, cy + sin (a2 aStart) * outerR);
          p2 = (cx + cos (a2 aEnd) * outerR, cy + sin (a2 aEnd) * outerR)
      in polygon (key_of ''ow'' i) p1 p2 (color spec) 0.8)"

definition inner_wedge :: "MandalaSpec \<Rightarrow> int \<Rightarrow> jsx" where
  "inner_wedge spec i =
     (let a1 = real_of_int i * step spec;
          aStart = a1;
          aEnd = a1 + step spec;
          p1i = (cx + cos (a2 aStart) * innerR, cy + sin (a2 aStart) * innerR);
          p2i = (cx + cos (a2 aEnd) * innerR, cy + sin (a2 aEnd) * innerR)
      in polygon (key_of ''iw'' i) p1i p2i (color spec) 0.25)"

text \<open>
  \<open>for (let i = 0; i < spec.segments; i++)\<close>, pushing to \<open>wedgesOuter\<close> and
  \<open>wedgesInner\<close>.
\<close>

function wedges_loop :: "MandalaSpec \<Rightarrow> int \<Rightarrow> jsx list \<times> jsx list \<Rightarrow> jsx list \<times> jsx list" where
  "wedges_loop spec i (wedgesOuter, wedgesInner) =
     (if i < segments spec
      then wedges_loop spec (i + 1)
             (wedgesOuter @ [outer_wedge spec i], wedgesInner @ [inner_wedge spec i])
      else (wedgesOuter, wedgesInner))"
  by pat_completeness auto
termination
  by (relation "measure (\<lambda>(spec, i, acc). nat (segments spec - i))") auto

declare wedges_loop.simps [simp del]

text \<open>The two elements pushed by one pass of the mirror loop.\<close>

definition mirror_outer :: "MandalaSpec \<Rightarrow> int \<Rightarrow> jsx" where
  "mirror_outer spec i =
     (let a1 = - real_of_int i * step spec;
          aEnd = - (real_of_int i * step spec) - step spec;
          aStart = a1;
          p1 = (cx + cos ((aStart * pi) / 180) * outerR, cy + sin ((aStart * pi) / 180) * outerR);
          p2 = (cx + cos ((aEnd * pi) / 180) * outerR, cy + sin ((aEnd * pi) / 180) * outerR)
      in polygon (key_of ''mw'' i) p1 p2 (color spec) 0.6)"

definition mirror_inner :: "MandalaSpec \<Rightarrow> int \<Rightarrow> jsx" where
  "mirror_inner spec i =
     (let a1 = - real_of_int i * step spec;
          aEnd = - (real_of_int i * step spec) - step spec;
          aStart = a1;
          p1i = (cx + cos ((aStart * pi) / 180) * innerR, cy + sin ((aStart * pi) / 180) * innerR);
          p2i = (cx + cos ((aEnd * pi) / 180) * innerR, cy + sin ((aEnd * pi) / 180) * innerR)
      in polygon (key_of ''mi'' i) p1i p2i (color spec) 0.15)"

function mirror_loop :: "MandalaSpec \<Rightarrow> int \<Rightarrow> jsx list \<Rightarrow> jsx list" where
  "mirror_loop spec i wedgesMirror =
     (if i < segments spec
      then mirror_loop spec (i + 1)
             (wedgesMirror @ [mirror_outer spec i] @ [mirror_inner spec i])
      else wedgesMirror)"
  by pat_completeness auto
termination
  by (relation "measure (\<lambda>(spec, i, acc). nat (segments spec - i))") auto

declare mirror_loop.simps [simp del]

definition defs_elem :: "MandalaSpec \<Rightarrow> jsx" where
  "defs_elem spec =
     Element ''defs'' None []
       [Element ''circle'' None
          [(''id'', PStr ''grad''), (''cx'', PNum cx), (''cy'', PNum cy),
           (''r'', PNum outerR), (''fill'', PStr (color spec))] []]"

definition rect_elem :: jsx where
  "rect_elem =
     Element ''rect'' None
       [(''x'', PNum 0), (''y'', PNum 0), (''width'', PNum 420), (''height'', PNum 420),
        (''fill'', PStr ''#111''), (''opacity'', PNum 0.0)] []"

definition text_elem :: jsx where
  "text_elem =
     Element ''text'' None
       [(''x'', PNum cx), (''y'', PNum cy), (''textAnchor'', PStr ''middle''),
        (''fill'', PStr ''white''), (''opacity'', PNum 0.15), (''fontSize'', PNum 42),
        (''fontFamily'', PStr ''Inter''), (''style'', PStyle [(''userSelect'', ''none'')])]
       [JText ''MANDALA'']"

definition circle_elem :: jsx where
  "circle_elem =
     Element ''circle'' None
       [(''cx'', PNum cx), (''cy'', PNum cy), (''r'', PNum 6), (''fill'', PStr ''#fff''),
        (''opacity'', PNum 0.3)] []"

text \<open>
  The component. Its second parameter \<open>watermark\<close> is destructured from the props and
  not read again.
\<close>

definition MandalaCanvas :: "MandalaSpec \<Rightarrow> bool \<Rightarrow> jsx" where
  "MandalaCanvas spec watermark =
     (let (wedgesOuter, wedgesInner) = wedges_loop spec 0 ([], []);
          wedgesMirror = (if symmetry spec = Mirror then mirror_loop spec 0 [] else [])
      in Element ''svg'' None
           [(''ref'', PNull), (''width'', PNum 420), (''height'', PNum 420),
            (''viewBox'', PStr ''0 0 420 420''), (''aria-label'', PStr ''Mandala canvas''),
            (''role'', PStr ''img'')]
           [defs_elem spec,
            rect_elem,
            JArray wedgesOuter,
            JArray wedgesInner,
            (if symmetry spec = Mirror then JArray wedgesMirror else JNull),
            (if showWatermark spec then text_elem else JFalse),
            circle_elem])"

subsection \<open>The rendered child sequence\<close>

text \<open>
  React renders the children of an element in order: an array child contributes its
  members, \<open>null\<close> and \<open>false\<close> contribute nothing. The scene of a spec is the sequence
  of children so rendered under the \<open>svg\<close> element that \<open>MandalaCanvas\<close> returns.
\<close>

fun flatten :: "jsx \<Rightarrow> jsx list" where
  "flatten (JArray xs) = concat (map flatten xs)"
| "flatten JNull = []"
| "flatten JFalse = []"
| "flatten e = [e]"

fun children_of :: "jsx \<Rightarrow> jsx list" where
  "children_of (Element t k ps cs) = cs"
| "children_of e = []"

fun tag_of :: "jsx \<Rightarrow> string" where
  "tag_of (Element t k ps cs) = t"
| "tag_of e = []"

definition scene :: "MandalaSpec \<Rightarrow> bool \<Rightarrow> jsx list" where
  "scene spec watermark = concat (map flatten (children_of (MandalaCanvas spec watermark)))"


definition valid :: "MandalaSpec \<Rightarrow> bool" where
  "valid spec = (3 \<le> segments spec \<and> segments spec \<le> 48)"


text \<open>
  The loops in closed form: what \<open>wedgesOuter\<close> followed by \<open>wedgesInner\<close> holds after the
  first loop, and what \<open>wedgesMirror\<close> holds after the second.
\<close>

definition primary :: "MandalaSpec \<Rightarrow> jsx list" where
  "primary spec =
     map (outer_wedge spec) [0..segments spec - 1] @ map (inner_wedge spec) [0..segments spec - 1]"

definition reflected :: "MandalaSpec \<Rightarrow> jsx list" where
  "reflected spec =
     concat (map (\<lambda>j. [mirror_outer spec j, mirror_inner spec j]) [0..segments spec - 1])"

text \<open>\<open>before x y xs\<close>: some occurrence of \<open>y\<close> in \<open>xs\<close> comes after an occurrence of \<open>x\<close>.\<close>

fun before :: "'a \<Rightarrow> 'a \<Rightarrow> 'a list \<Rightarrow> bool" where
  "before x y [] = False"
| "before x y (z # zs) = ((z = x \<and> y \<in> set zs) \<or> before x y zs)"

subsection \<open>The geometry in the words of the specification\<close>

text \<open>
  \<open>P(angleDeg, r) = (C.x + r\<cdot>cos(angleDeg\<cdot>\<pi>/180), C.y + r\<cdot>sin(angleDeg\<cdot>\<pi>/180))\<close> with
  \<open>C = (210, 210)\<close>, and the angular step \<open>\<theta> = 360 / segments\<close>.
\<close>

definition spec_P :: "real \<Rightarrow> real \<Rightarrow> real \<times> real" where
  "spec_P angleDeg r = (210 + r * cos (angleDeg * pi / 180), 210 + r * sin (angleDeg * pi / 180))"

definition spec_theta :: "MandalaSpec \<Rightarrow> real" where
  "spec_theta spec = 360 / real_of_int (segments spec)"

definition spec_wedge :: "string \<Rightarrow> real \<Rightarrow> real \<Rightarrow> real \<Rightarrow> string \<Rightarrow> real \<Rightarrow> jsx" where
  "spec_wedge k angle1 angle2 r fill opacity =
     Element ''polygon'' (Some k)
       [(''points'', PPoints [(210, 210), spec_P angle1 r, spec_P angle2 r]),
        (''fill'', PStr fill),
        (''opacity'', PNum opacity),
        (''stroke'', PStr ''none'')] []"

subsection \<open>The DOM and the browser, as far as exportSVG uses them\<close>

datatype node =
    DElement string string "(string \<times> string) list" "node list"
  | DText string

fun childNodes :: "node \<Rightarrow> node list" where
  "childNodes (DElement ns t as cs) = cs"
| "childNodes (DText s) = []"

definition createElementNS :: "string \<Rightarrow> string \<Rightarrow> node" where
  "createElementNS ns t = DElement ns t [] []"

text \<open>\<open>setAttribute\<close> replaces the value of an attribute that is present and adds one that is not.\<close>

fun setAttribute :: "node \<Rightarrow> string \<Rightarrow> string \<Rightarrow> node" where
  "setAttribute (DElement ns t as cs) k v =
     DElement ns t
       (if k \<in> fst ` set as then map (\<lambda>(k', v'). if k' = k then (k', v) else (k', v')) as
        else as @ [(k, v)]) cs"
| "setAttribute (DText s) k v = DText s"

text \<open>\<open>cloneNode(true)\<close>: a deep copy.\<close>

fun cloneNode :: "node \<Rightarrow> node" where
  "cloneNode (DElement ns t as cs) = DElement ns t as (map cloneNode cs)"
| "cloneNode (DText s) = DText s"

fun firstChild :: "node \<Rightarrow> node option" where
  "firstChild (DElement ns t as (c # cs)) = Some c"
| "firstChild n = None"

text \<open>
  \<open>parent.appendChild(child)\<close> puts the child last under its new parent and takes it away
  from its old one. The two halves are \<open>appendChild\<close> and \<open>detach_first\<close>, the child
  being the first one of its old parent in the only call of the source.
\<close>

fun appendChild :: "node \<Rightarrow> node \<Rightarrow> node" where
  "appendChild (DElement ns t as cs) c = DElement ns t as (cs @ [c])"
| "appendChild (DText s) c = DText s"

fun detach_first :: "node \<Rightarrow> node" where
  "detach_first (DElement ns t as cs) = DElement ns t as (tl cs)"
| "detach_first (DText s) = DText s"

text \<open>\<open>while (clone.firstChild) { outer.appendChild(clone.firstChild); }\<close>\<close>

function transplant :: "node \<Rightarrow> node \<Rightarrow> node \<times> node" where
  "transplant clone outer =
     (case firstChild clone of
        None \<Rightarrow> (clone, outer)
      | Some c \<Rightarrow> transplant (detach_first clone) (appendChild outer c))"
  by pat_completeness auto
termination
proof (relation "measure (\<lambda>(clone, outer). length (childNodes clone))")
  show "wf (measure (\<lambda>(clone, outer). length (childNodes clone)))"
    by simp
next
  fix clone outer :: node and c :: node
  assume "firstChild clone = Some c"
  then show "((detach_first clone, appendChild outer c), (clone, outer))
      \<in> measure (\<lambda>(clone, outer). length (childNodes clone))"
    by (cases clone rule: firstChild.cases) simp_all
qed

declare transplant.simps [simp del]

record blob =
  blob_parts :: "string list"
  blob_type :: string

record anchor =
  href :: string
  download :: string

text \<open>
  The browser interfaces that the callback calls and the source does not define:
  the XML serializer, the allocator of object URLs, and whether the click on the anchor
  raises.
\<close>

record browser =
  serializeToString :: "node \<Rightarrow> string"
  createObjectURL :: "blob \<Rightarrow> string"
  click_throws :: "anchor \<Rightarrow> bool"

text \<open>The calls that change the browser's state, in the order the callback makes them.\<close>

datatype effect =
    CreateObjectURL blob string
  | AppendToBody anchor
  | Click anchor
  | Remove anchor
  | RevokeObjectURL string

datatype completion = Returned | Thrown

definition svg_ns :: string where
  "svg_ns = ''http://www.w3.org/2000/svg''"

text \<open>Lines 235 to 246 of the callback: the new root with the children of the clone moved in.\<close>

definition build_outer :: "node \<Rightarrow> node" where
  "build_outer el =
     (let outer = createElementNS svg_ns ''svg'';
          outer = setAttribute outer ''xmlns'' svg_ns;
          outer = setAttribute outer ''width'' ''420'';
          outer = setAttribute outer ''height'' ''420'';
          outer = setAttribute outer ''viewBox'' ''0 0 420 420'';
          clone = cloneNode el;
          (clone, outer) = transplant clone outer
      in outer)"

text \<open>
  The callback, given the browser and \<open>svgRef.current\<close>. It has no exception handler:
  when the click raises, the calls after it are not made.
\<close>

definition exportSVG :: "browser \<Rightarrow> node option \<Rightarrow> completion \<times> effect list" where
  "exportSVG env current =
     (case current of
        None \<Rightarrow> (Returned, [])
      | Some el \<Rightarrow>
          (let outer = build_outer el;
               source = serializeToString env outer;
               blob = \<lparr>blob_parts = [source], blob_type = ''image/svg+xml;charset=utf-8''\<rparr>;
               url = createObjectURL env blob;
               a = \<lparr>href = url, download = ''mandala.svg''\<rparr>;
               before_click = [CreateObjectURL blob url, AppendToBody a, Click a]
           in if click_throws env a then (Thrown, before_click)
              else (Returned, before_click @ [Remove a, RevokeObjectURL url])))"

text \<open>The media type of a content type: the text before its first parameter.\<close>

definition media_type :: "string \<Rightarrow> string" where
  "media_type ct = takeWhile (\<lambda>c. c \<noteq> CHR '';'') ct"

subsection \<open>Concrete inputs\<close>

text \<open>The spec that \<open>App\<close> starts with.\<close>

definition initial_spec :: MandalaSpec where
  "initial_spec = \<lparr>segments = 12, symmetry = Radial, color = ''#ff7f50'', showWatermark = True\<rparr>"

text \<open>
  A mounted tree of the shape the builder view renders (an \<open>svg\<close> holding a \<open>g\<close> holding the
  canvas), a browser whose click returns and one whose click raises.
\<close>

definition live_dom :: node where
  "live_dom =
     DElement svg_ns ''svg'' [(''width'', ''420''), (''height'', ''420''), (''viewBox'', ''0 0 420 420'')]
       [DElement svg_ns ''g'' []
          [DElement svg_ns ''svg'' [(''width'', ''420'')]
             [DElement svg_ns ''rect'' [(''x'', ''0'')] [],
              DElement svg_ns ''text'' [(''x'', ''210'')] [DText ''MANDALA''],
              DElement svg_ns ''circle'' [(''r'', ''6'')] []]]]"

definition working_browser :: browser where
  "working_browser =
     \<lparr>serializeToString = (\<lambda>n. ''<svg/>''),
      createObjectURL = (\<lambda>b. ''blob:0''),
      click_throws = (\<lambda>a. False)\<rparr>"

definition throwing_browser :: browser where
  "throwing_browser = working_browser\<lparr>click_throws := (\<lambda>a. True)\<rparr>"

section \<open>Properties\<close>

subsection \<open>The loops in closed form\<close>

lemma upto_step: "i < n \<Longrightarrow> [i..n - 1] = i # [i + 1..n - 1]" for i n :: int
  by (simp add: upto_rec1)

lemma wedges_loop_eq:
  "wedges_loop s i (wo, wi) =
     (wo @ map (outer_wedge s) [i..segments s - 1],
      wi @ map (inner_wedge s) [i..segments s - 1])"
proof (induction s i "(wo, wi)" arbitrary: wo wi rule: wedges_loop.induct)
  case (1 s i wo wi)
  show ?case
  proof (cases "i < segments s")
    case True
    have "wedges_loop s i (wo, wi) =
        wedges_loop s (i + 1) (wo @ [outer_wedge s i], wi @ [inner_wedge s i])"
      using True by (subst wedges_loop.simps) simp
    also have "\<dots> =
        ((wo @ [outer_wedge s i]) @ map (outer_wedge s) [i + 1..segments s - 1],
         (wi @ [inner_wedge s i]) @ map (inner_wedge s) [i + 1..segments s - 1])"
      using True by (rule "1")
    finally show ?thesis
      by (simp add: upto_step [OF True])
  next
    case False
    then show ?thesis
      by (subst wedges_loop.simps) simp
  qed
qed

lemma mirror_loop_eq:
  "mirror_loop s i acc =
     acc @ concat (map (\<lambda>j. [mirror_outer s j, mirror_inner s j]) [i..segments s - 1])"
proof (induction s i acc rule: mirror_loop.induct)
  case (1 s i acc)
  show ?case
  proof (cases "i < segments s")
    case True
    have "mirror_loop s i acc =
        mirror_loop s (i + 1) (acc @ [mirror_outer s i] @ [mirror_inner s i])"
      using True by (subst mirror_loop.simps) simp
    also have "\<dots> = (acc @ [mirror_outer s i] @ [mirror_inner s i])
        @ concat (map (\<lambda>j. [mirror_outer s j, mirror_inner s j]) [i + 1..segments s - 1])"
      using True by (rule "1")
    finally show ?thesis
      by (simp add: upto_step [OF True])
  next
    case False
    then show ?thesis
      by (subst mirror_loop.simps) simp
  qed
qed

subsection \<open>The shape of the scene\<close>

lemma flatten_polygon: "flatten (polygon k p q f opc) = [polygon k p q f opc]"
  by (simp add: polygon_def)

lemma flatten_wedges:
  "flatten (outer_wedge s i) = [outer_wedge s i]"
  "flatten (inner_wedge s i) = [inner_wedge s i]"
  "flatten (mirror_outer s i) = [mirror_outer s i]"
  "flatten (mirror_inner s i) = [mirror_inner s i]"
  by (simp_all add: outer_wedge_def inner_wedge_def mirror_outer_def mirror_inner_def Let_def
      flatten_polygon)

lemma flatten_JArray_wedges:
  "flatten (JArray (map (outer_wedge s) js)) = map (outer_wedge s) js"
  "flatten (JArray (map (inner_wedge s) js)) = map (inner_wedge s) js"
  "flatten (JArray (concat (map (\<lambda>j. [mirror_outer s j, mirror_inner s j]) js))) =
     concat (map (\<lambda>j. [mirror_outer s j, mirror_inner s j]) js)"
  by (induction js) (simp_all add: flatten_wedges)

lemma flatten_fixed:
  "flatten (defs_elem s) = [defs_elem s]"
  "flatten rect_elem = [rect_elem]"
  "flatten text_elem = [text_elem]"
  "flatten circle_elem = [circle_elem]"
  by (simp_all add: defs_elem_def rect_elem_def text_elem_def circle_elem_def)

lemma scene_shape:
  "scene s w =
     [defs_elem s, rect_elem] @ primary s
       @ (if symmetry s = Mirror then reflected s else [])
       @ (if showWatermark s then [text_elem] else [])
       @ [circle_elem]"
  by (simp add: scene_def MandalaCanvas_def wedges_loop_eq mirror_loop_eq flatten_JArray_wedges
      primary_def reflected_def flatten_fixed del: flatten.simps(1))

lemma tag_of_wedges:
  "tag_of (outer_wedge s i) = ''polygon''"
  "tag_of (inner_wedge s i) = ''polygon''"
  "tag_of (mirror_outer s i) = ''polygon''"
  "tag_of (mirror_inner s i) = ''polygon''"
  by (simp_all add: outer_wedge_def inner_wedge_def mirror_outer_def mirror_inner_def Let_def
      polygon_def)

lemma tag_of_fixed:
  "tag_of (defs_elem s) = ''defs''"
  "tag_of rect_elem = ''rect''"
  "tag_of text_elem = ''text''"
  "tag_of circle_elem = ''circle''"
  by (simp_all add: defs_elem_def rect_elem_def text_elem_def circle_elem_def)




lemma length_primary: "length (primary s) = 2 * nat (segments s)"
  by (simp add: primary_def)

lemma length_reflected: "length (reflected s) = 2 * nat (segments s)"
proof -
  have "length (concat (map (\<lambda>j. [mirror_outer s j, mirror_inner s j]) js)) = 2 * length js" for js
    by (induction js) simp_all
  then show ?thesis
    by (simp add: reflected_def)
qed





subsection \<open>Positions in the scene\<close>

lemma nth_upto0: "0 \<le> i \<Longrightarrow> i < n \<Longrightarrow> [0..n - 1] ! nat i = i" for i n :: int
  by (simp add: nth_upto)

lemma nth_primary:
  assumes "0 \<le> i" "i < segments s"
  shows "primary s ! nat i = outer_wedge s i"
    and "primary s ! (nat (segments s) + nat i) = inner_wedge s i"
  using assms by (simp_all add: primary_def nth_append nth_upto0)

lemma nth_reflected:
  assumes "0 \<le> i" "i < segments s"
  shows "reflected s ! (2 * nat i) = mirror_outer s i"
    and "reflected s ! (2 * nat i + 1) = mirror_inner s i"
proof -
  have gen: "k < length js \<Longrightarrow>
      concat (map (\<lambda>j. [mirror_outer s j, mirror_inner s j]) js) ! (2 * k) = mirror_outer s (js ! k)
      \<and> concat (map (\<lambda>j. [mirror_outer s j, mirror_inner s j]) js) ! (2 * k + 1) = mirror_inner s (js ! k)"
    for js k
  proof (induction js arbitrary: k)
    case Nil
    then show ?case by simp
  next
    case (Cons j js)
    show ?case
    proof (cases k)
      case 0
      then show ?thesis by simp
    next
      case (Suc k')
      with Cons.prems have "k' < length js" by simp
      from Cons.IH [OF this] Suc show ?thesis by simp
    qed
  qed
  have len: "nat i < length [0..segments s - 1]"
    using assms by simp
  from gen [OF len] assms show "reflected s ! (2 * nat i) = mirror_outer s i"
    and "reflected s ! (2 * nat i + 1) = mirror_inner s i"
    by (simp_all add: reflected_def nth_upto0)
qed

lemma nth_scene_primary:
  assumes "0 \<le> i" "i < segments s"
  shows "scene s w ! (2 + nat i) = outer_wedge s i"
    and "scene s w ! (2 + nat (segments s) + nat i) = inner_wedge s i"
proof -
  have "scene s w = [defs_elem s, rect_elem] @ (primary s @ (if symmetry s = Mirror then reflected s else [])
       @ (if showWatermark s then [text_elem] else [])
       @ [circle_elem])" (is "_ = ?a @ (primary s @ ?r)")
    by (simp add: scene_shape)
  then have e: "scene s w ! (2 + k) = (primary s @ ?r) ! k" for k
    by (metis length_Cons list.size(3) nth_append_length_plus numeral_2_eq_2)
  have l: "nat i < length (primary s)" "nat (segments s) + nat i < length (primary s)"
    using assms by (simp_all add: length_primary)
  show "scene s w ! (2 + nat i) = outer_wedge s i"
    using l(1) nth_primary(1) [OF assms] by (simp only: e nth_append if_True)
  have "scene s w ! (2 + (nat (segments s) + nat i)) = inner_wedge s i"
    using l(2) nth_primary(2) [OF assms] by (simp only: e nth_append if_True)
  then show "scene s w ! (2 + nat (segments s) + nat i) = inner_wedge s i"
    by (simp add: add.assoc)
qed

lemma nth_scene_reflected:
  assumes "0 \<le> i" "i < segments s" "symmetry s = Mirror"
  shows "scene s w ! (2 + 2 * nat (segments s) + 2 * nat i) = mirror_outer s i"
    and "scene s w ! (2 + 2 * nat (segments s) + 2 * nat i + 1) = mirror_inner s i"
proof -
  have "scene s w = ([defs_elem s, rect_elem] @ primary s) @ (reflected s
       @ (if showWatermark s then [text_elem] else [])
       @ [circle_elem])" (is "_ = ?a @ (reflected s @ ?r)")
    using assms(3) by (simp add: scene_shape)
  moreover have "length ?a = 2 + 2 * nat (segments s)"
    by (simp add: length_primary)
  ultimately have e: "scene s w ! (2 + 2 * nat (segments s) + k) = (reflected s @ ?r) ! k" for k
    by (metis nth_append_length_plus)
  have l: "2 * nat i < length (reflected s)" "2 * nat i + 1 < length (reflected s)"
    using assms by (simp_all add: length_reflected)
  show "scene s w ! (2 + 2 * nat (segments s) + 2 * nat i) = mirror_outer s i"
    using l(1) nth_reflected(1) [OF assms(1,2)] by (simp only: e nth_append if_True)
  have "scene s w ! (2 + 2 * nat (segments s) + (2 * nat i + 1)) = mirror_inner s i"
    using l(2) nth_reflected(2) [OF assms(1,2)] by (simp only: e nth_append if_True)
  then show "scene s w ! (2 + 2 * nat (segments s) + 2 * nat i + 1) = mirror_inner s i"
    by (simp add: add.assoc)
qed

subsection \<open>Cardinality\<close>



subsection \<open>Geometry of the wedges\<close>

lemma point_eq:
  "(cx + cos (a2 a) * outerR, cy + sin (a2 a) * outerR) = spec_P a 140"
  "(cx + cos (a2 a) * innerR, cy + sin (a2 a) * innerR) = spec_P a 84"
  "(cx + cos ((a * pi) / 180) * outerR, cy + sin ((a * pi) / 180) * outerR) = spec_P a 140"
  "(cx + cos ((a * pi) / 180) * innerR, cy + sin ((a * pi) / 180) * innerR) = spec_P a 84"
  by (simp_all add: cx_def cy_def outerR_def innerR_def a2_def spec_P_def mult.commute)

lemma step_theta: "step s = spec_theta s"
  by (simp add: step_def spec_theta_def)

lemma angle_eq:
  "x * t + t = (x + 1) * t"
  "- (x * t) - t = - ((x + 1) * t)"
  for x t :: real
  by (simp_all add: algebra_simps)

lemma outer_wedge_geometry:
  "outer_wedge s i =
     spec_wedge (key_of ''ow'' i) (real_of_int i * spec_theta s) ((real_of_int i + 1) * spec_theta s)
       140 (color s) 0.8"
  unfolding outer_wedge_def Let_def polygon_def spec_wedge_def point_eq step_theta
  by (simp add: cx_def cy_def angle_eq)

lemma inner_wedge_geometry:
  "inner_wedge s i =
     spec_wedge (key_of ''iw'' i) (real_of_int i * spec_theta s) ((real_of_int i + 1) * spec_theta s)
       84 (color s) 0.25"
  unfolding inner_wedge_def Let_def polygon_def spec_wedge_def point_eq step_theta
  by (simp add: cx_def cy_def angle_eq)

lemma mirror_outer_geometry:
  "mirror_outer s i =
     spec_wedge (key_of ''mw'' i) (- (real_of_int i * spec_theta s))
       (- ((real_of_int i + 1) * spec_theta s)) 140 (color s) 0.6"
  unfolding mirror_outer_def Let_def polygon_def spec_wedge_def point_eq step_theta
  by (simp add: cx_def cy_def angle_eq)

lemma mirror_inner_geometry:
  "mirror_inner s i =
     spec_wedge (key_of ''mi'' i) (- (real_of_int i * spec_theta s))
       (- ((real_of_int i + 1) * spec_theta s)) 84 (color s) 0.15"
  unfolding mirror_inner_def Let_def polygon_def spec_wedge_def point_eq step_theta
  by (simp add: cx_def cy_def angle_eq)

text \<open>
  Claim C3. For a spec with \<open>3 \<le> segments \<le> 48\<close> and \<open>0 \<le> i < segments\<close>, outer wedge \<open>i\<close>
  (the child at position \<open>2 + i\<close>) is the triangle \<open>(C, P(i\<theta>, 140), P((i+1)\<theta>, 140))\<close> with
  \<open>C = (210, 210)\<close> and \<open>\<theta> = 360 / segments\<close>, filled with the colour of the spec at
  opacity 0.8; inner wedge \<open>i\<close> (the child at position \<open>2 + segments + i\<close>) spans the same
  angles at radius 84, which is \<open>0.6 * 140\<close>, at opacity 0.25. Coordinates are real numbers.
\<close>

theorem primary_wedge_geometry:
  "valid s \<Longrightarrow> 0 \<le> i \<Longrightarrow> i < segments s \<Longrightarrow>
     scene s w ! (2 + nat i) =
       Element ''polygon'' (Some (key_of ''ow'' i))
         [(''points'', PPoints [(210, 210),
             spec_P (real_of_int i * spec_theta s) 140,
             spec_P ((real_of_int i + 1) * spec_theta s) 140]),
          (''fill'', PStr (color s)), (''opacity'', PNum 0.8), (''stroke'', PStr ''none'')] []
     \<and> scene s w ! (2 + nat (segments s) + nat i) =
       Element ''polygon'' (Some (key_of ''iw'' i))
         [(''points'', PPoints [(210, 210),
             spec_P (real_of_int i * spec_theta s) 84,
             spec_P ((real_of_int i + 1) * spec_theta s) 84]),
          (''fill'', PStr (color s)), (''opacity'', PNum 0.25), (''stroke'', PStr ''none'')] []
     \<and> innerR = 84"
  using nth_scene_primary [of i s w]
  by (simp add: outer_wedge_geometry inner_wedge_geometry spec_wedge_def innerR_def outerR_def)

theorem primary_wedge_geometry_witness:
  "valid initial_spec \<and> (0::int) \<le> 1 \<and> 1 < segments initial_spec
     \<and> scene initial_spec True ! 3 =
       Element ''polygon'' (Some ''ow-1'')
         [(''points'', PPoints [(210, 210), spec_P 30 140, spec_P 60 140]),
          (''fill'', PStr ''#ff7f50''), (''opacity'', PNum 0.8), (''stroke'', PStr ''none'')] []
     \<and> scene initial_spec True ! 15 =
       Element ''polygon'' (Some ''iw-1'')
         [(''points'', PPoints [(210, 210), spec_P 30 84, spec_P 60 84]),
          (''fill'', PStr ''#ff7f50''), (''opacity'', PNum 0.25), (''stroke'', PStr ''none'')] []"
  using primary_wedge_geometry [of initial_spec 1 True]
  by (simp add: valid_def initial_spec_def spec_theta_def key_of_def)

text \<open>
  Claim C4. For a spec with \<open>3 \<le> segments \<le> 48\<close> and mirror symmetry, and \<open>0 \<le> i < segments\<close>,
  the scene holds, after the primary wedges, an outer wedge over the angles \<open>-i\<theta>\<close> and
  \<open>-(i+1)\<theta>\<close> at opacity 0.6 and, right after it, an inner wedge over the same angles at
  opacity 0.15, both with the vertex formula \<open>P\<close> of the primary wedges.
\<close>

theorem mirror_wedge_geometry:
  "valid s \<Longrightarrow> symmetry s = Mirror \<Longrightarrow> 0 \<le> i \<Longrightarrow> i < segments s \<Longrightarrow>
     scene s w ! (2 + 2 * nat (segments s) + 2 * nat i) =
       Element ''polygon'' (Some (key_of ''mw'' i))
         [(''points'', PPoints [(210, 210),
             spec_P (- (real_of_int i * spec_theta s)) 140,
             spec_P (- ((real_of_int i + 1) * spec_theta s)) 140]),
          (''fill'', PStr (color s)), (''opacity'', PNum 0.6), (''stroke'', PStr ''none'')] []
     \<and> scene s w ! (2 + 2 * nat (segments s) + 2 * nat i + 1) =
       Element ''polygon'' (Some (key_of ''mi'' i))
         [(''points'', PPoints [(210, 210),
             spec_P (- (real_of_int i * spec_theta s)) 84,
             spec_P (- ((real_of_int i + 1) * spec_theta s)) 84]),
          (''fill'', PStr (color s)), (''opacity'', PNum 0.15), (''stroke'', PStr ''none'')] []"
  using nth_scene_reflected [of i s w]
  by (simp add: mirror_outer_geometry mirror_inner_geometry spec_wedge_def)

theorem mirror_wedge_geometry_witness:
  "valid (initial_spec\<lparr>symmetry := Mirror\<rparr>) \<and> symmetry (initial_spec\<lparr>symmetry := Mirror\<rparr>) = Mirror
     \<and> (0::int) \<le> 1 \<and> 1 < segments (initial_spec\<lparr>symmetry := Mirror\<rparr>)
     \<and> scene (initial_spec\<lparr>symmetry := Mirror\<rparr>) True ! 28 =
       Element ''polygon'' (Some ''mw-1'')
         [(''points'', PPoints [(210, 210), spec_P (- 30) 140, spec_P (- 60) 140]),
          (''fill'', PStr ''#ff7f50''), (''opacity'', PNum 0.6), (''stroke'', PStr ''none'')] []
     \<and> scene (initial_spec\<lparr>symmetry := Mirror\<rparr>) True ! 29 =
       Element ''polygon'' (Some ''mi-1'')
         [(''points'', PPoints [(210, 210), spec_P (- 30) 84, spec_P (- 60) 84]),
          (''fill'', PStr ''#ff7f50''), (''opacity'', PNum 0.15), (''stroke'', PStr ''none'')] []"
  using mirror_wedge_geometry [of "initial_spec\<lparr>symmetry := Mirror\<rparr>" 1 True]
  by (simp add: valid_def initial_spec_def spec_theta_def key_of_def)

subsection \<open>Keys tell the children apart\<close>

lemma digit_inj:
  "n < 10 \<Longrightarrow> m < 10 \<Longrightarrow> ''0123456789'' ! n = ''0123456789'' ! m \<Longrightarrow> n = m"
proof -
  have c: "k < 10 \<Longrightarrow> k \<in> {0, 1, 2, 3, 4, 5, 6, 7, 8, 9}" for k :: nat
    by auto
  assume "n < 10" "m < 10" "''0123456789'' ! n = ''0123456789'' ! m"
  with c [of n] c [of m] show ?thesis
    by auto
qed

lemma decimal_nonempty: "decimal n \<noteq> []"
  by (subst decimal.simps) simp

lemma decimal_inj: "decimal n = decimal m \<Longrightarrow> n = m"
proof (induction n arbitrary: m rule: decimal.induct)
  case (1 n)
  show ?case
  proof (cases "n < 10")
    case n: True
    show ?thesis
    proof (cases "m < 10")
      case True
      with n "1.prems" show ?thesis
        by (simp add: digit_inj)
    next
      case False
      with n "1.prems" have "[''0123456789'' ! n] = decimal (m div 10) @ [''0123456789'' ! (m mod 10)]"
        by (subst (asm) (1 2) decimal.simps) simp
      then show ?thesis
        using decimal_nonempty [of "m div 10"] by simp
    qed
  next
    case n: False
    show ?thesis
    proof (cases "m < 10")
      case True
      with n "1.prems" have "decimal (n div 10) @ [''0123456789'' ! (n mod 10)] = [''0123456789'' ! m]"
        by (subst (asm) (1 2) decimal.simps) simp
      then show ?thesis
        using decimal_nonempty [of "n div 10"] by simp
    next
      case False
      with n "1.prems" have e: "decimal (n div 10) @ [''0123456789'' ! (n mod 10)]
          = decimal (m div 10) @ [''0123456789'' ! (m mod 10)]"
        by (subst (asm) (1 2) decimal.simps) simp
      then have "decimal (n div 10) = decimal (m div 10)"
        and d: "''0123456789'' ! (n mod 10) = ''0123456789'' ! (m mod 10)"
        by simp_all
      with n "1.IH" have "n div 10 = m div 10"
        by simp
      moreover from d have "n mod 10 = m mod 10"
        by (intro digit_inj) simp_all
      ultimately show ?thesis
        by (metis div_mult_mod_eq)
    qed
  qed
qed

lemma key_of_inj: "0 \<le> i \<Longrightarrow> 0 \<le> j \<Longrightarrow> key_of p i = key_of p j \<Longrightarrow> i = j"
  using decimal_inj [of "nat i" "nat j"] by (simp add: key_of_def)


lemma wedge_same_kind:
  "outer_wedge s i = outer_wedge s j \<Longrightarrow> key_of ''ow'' i = key_of ''ow'' j"
  "inner_wedge s i = inner_wedge s j \<Longrightarrow> key_of ''iw'' i = key_of ''iw'' j"
  "mirror_outer s i = mirror_outer s j \<Longrightarrow> key_of ''mw'' i = key_of ''mw'' j"
  "mirror_inner s i = mirror_inner s j \<Longrightarrow> key_of ''mi'' i = key_of ''mi'' j"
  by (simp_all add: outer_wedge_def inner_wedge_def mirror_outer_def mirror_inner_def Let_def
      polygon_def)

lemma wedge_other_kind:
  "outer_wedge s i \<noteq> inner_wedge s j"
  "outer_wedge s i \<noteq> mirror_outer s j"
  "outer_wedge s i \<noteq> mirror_inner s j"
  "inner_wedge s i \<noteq> mirror_outer s j"
  "inner_wedge s i \<noteq> mirror_inner s j"
  "mirror_outer s i \<noteq> mirror_inner s j"
  by (simp_all add: outer_wedge_def inner_wedge_def mirror_outer_def mirror_inner_def Let_def
      polygon_def key_of_def)

lemma set_primary:
  "set (primary s) = outer_wedge s ` {0 ..< segments s} \<union> inner_wedge s ` {0 ..< segments s}"
  by (auto simp: primary_def)

lemma set_reflected:
  "set (reflected s) = mirror_outer s ` {0 ..< segments s} \<union> mirror_inner s ` {0 ..< segments s}"
  by (auto simp: reflected_def)

lemma distinct_primary: "distinct (primary s)"
proof -
  have "inj_on (outer_wedge s) (set [0..segments s - 1])"
    by (rule inj_onI) (auto dest!: wedge_same_kind intro: key_of_inj)
  moreover have "inj_on (inner_wedge s) (set [0..segments s - 1])"
    by (rule inj_onI) (auto dest!: wedge_same_kind intro: key_of_inj)
  ultimately show ?thesis
    by (auto simp: primary_def distinct_map wedge_other_kind)
qed

lemma distinct_reflected: "distinct (reflected s)"
proof -
  have "distinct js \<Longrightarrow> \<forall>j \<in> set js. 0 \<le> j \<Longrightarrow>
      distinct (concat (map (\<lambda>j. [mirror_outer s j, mirror_inner s j]) js))" for js
  proof (induction js)
    case Nil
    then show ?case by simp
  next
    case (Cons j js)
    have "mirror_outer s j \<noteq> mirror_outer s k" "mirror_inner s j \<noteq> mirror_inner s k"
      if "k \<in> set js" for k
      using that Cons.prems by (auto dest!: wedge_same_kind key_of_inj [rotated 2])
    with Cons show ?case
      using wedge_other_kind(6) [of s] by (auto simp: eq_commute [of "mirror_inner s _" "mirror_outer s _"])
  qed
  then show ?thesis
    by (simp add: reflected_def)
qed

lemma tag_in_wedges:
  "e \<in> set (primary s) \<Longrightarrow> tag_of e = ''polygon''"
  "e \<in> set (reflected s) \<Longrightarrow> tag_of e = ''polygon''"
  by (auto simp: set_primary set_reflected tag_of_wedges)

lemma distinct_scene: "distinct (scene s w)"
proof -
  have fixed: "defs_elem s \<notin> set (primary s)" "defs_elem s \<notin> set (reflected s)"
    "rect_elem \<notin> set (primary s)" "rect_elem \<notin> set (reflected s)"
    "text_elem \<notin> set (primary s)" "text_elem \<notin> set (reflected s)"
    "circle_elem \<notin> set (primary s)" "circle_elem \<notin> set (reflected s)"
    using tag_in_wedges [of _ s] by (fastforce simp: tag_of_fixed)+
  have apart: "set (primary s) \<inter> set (reflected s) = {}"
    by (auto simp: set_primary set_reflected wedge_other_kind)
  have others: "defs_elem s \<noteq> rect_elem" "defs_elem s \<noteq> text_elem" "defs_elem s \<noteq> circle_elem"
    "rect_elem \<noteq> text_elem" "rect_elem \<noteq> circle_elem" "text_elem \<noteq> circle_elem"
    by (simp_all add: defs_elem_def rect_elem_def text_elem_def circle_elem_def)
  show ?thesis
    using fixed apart others by (simp add: scene_shape distinct_primary distinct_reflected)
qed


subsection \<open>Painter order\<close>

lemma before_appendI: "x \<in> set xs \<Longrightarrow> y \<in> set ys \<Longrightarrow> before x y (xs @ ys)"
  by (induction xs) auto

lemma before_append_left: "before x y xs \<Longrightarrow> before x y (xs @ ys)"
  by (induction xs) auto

lemma before_append_right: "before x y ys \<Longrightarrow> before x y (xs @ ys)"
  by (induction xs) auto

lemma in_upto0: "0 \<le> i \<Longrightarrow> i < n \<Longrightarrow> i \<in> set [0..n - 1]" for i n :: int
  by simp

lemma before_primary:
  assumes "0 \<le> i" "i < segments s"
  shows "before (outer_wedge s i) (inner_wedge s i) (primary s)"
  unfolding primary_def using assms by (intro before_appendI) (simp_all add: in_upto0)

lemma before_reflected:
  assumes "0 \<le> i" "i < segments s"
  shows "before (mirror_outer s i) (mirror_inner s i) (reflected s)"
proof -
  have "j \<in> set js \<Longrightarrow>
      before (mirror_outer s j) (mirror_inner s j)
        (concat (map (\<lambda>j. [mirror_outer s j, mirror_inner s j]) js))" for j js
    by (induction js) auto
  from this [OF in_upto0 [OF assms]] show ?thesis
    by (simp add: reflected_def)
qed

lemma before_scene_primary:
  assumes "0 \<le> i" "i < segments s"
  shows "before (outer_wedge s i) (inner_wedge s i) (scene s w)"
  unfolding scene_shape
  by (intro before_append_right [of _ _ _ "[defs_elem s, rect_elem]"] before_append_left
      before_primary assms)

lemma before_scene_reflected:
  assumes "0 \<le> i" "i < segments s" "symmetry s = Mirror"
  shows "before (mirror_outer s i) (mirror_inner s i) (scene s w)"
proof -
  have "before (mirror_outer s i) (mirror_inner s i)
      (([defs_elem s, rect_elem] @ primary s) @ reflected s
        @ ((if showWatermark s then [text_elem] else []) @ [circle_elem]))"
    by (intro before_append_right [of _ _ _ "[defs_elem s, rect_elem] @ primary s"]
        before_append_left before_reflected assms)
  then show ?thesis
    using assms(3) by (simp add: scene_shape)
qed

lemma before_watermark:
  assumes "showWatermark s"
  shows "before text_elem circle_elem (scene s w)"
proof -
  have "before text_elem circle_elem
      (([defs_elem s, rect_elem] @ primary s @ (if symmetry s = Mirror then reflected s else []))
        @ [text_elem, circle_elem])"
    by (intro before_append_right) simp
  then show ?thesis
    using assms by (simp add: scene_shape)
qed

lemma last_scene: "last (scene s w) = circle_elem"
  by (simp add: scene_shape)

text \<open>
  Claim C5. For a spec with \<open>3 \<le> segments \<le> 48\<close>: every inner wedge comes after the outer
  wedge of the same index, among the primary wedges and among the mirrored ones; the
  watermark text, when present, comes before the centre dot; the centre dot, a circle of
  radius 6 filled \<open>#fff\<close> at opacity 0.3, is the last child; and no child occurs twice, so
  that each of these positions is the only one.
\<close>

theorem painter_order:
  "valid s \<Longrightarrow>
     (\<forall>i \<in> {0 ..< segments s}. before (outer_wedge s i) (inner_wedge s i) (scene s w))
     \<and> (symmetry s = Mirror \<longrightarrow>
          (\<forall>i \<in> {0 ..< segments s}. before (mirror_outer s i) (mirror_inner s i) (scene s w)))
     \<and> (showWatermark s \<longrightarrow> before text_elem circle_elem (scene s w))
     \<and> last (scene s w) = circle_elem
     \<and> circle_elem =
         Element ''circle'' None
           [(''cx'', PNum 210), (''cy'', PNum 210), (''r'', PNum 6), (''fill'', PStr ''#fff''),
            (''opacity'', PNum 0.3)] []
     \<and> distinct (scene s w)"
proof -
  have dot: "circle_elem =
      Element ''circle'' None
        [(''cx'', PNum 210), (''cy'', PNum 210), (''r'', PNum 6), (''fill'', PStr ''#fff''),
         (''opacity'', PNum 0.3)] []"
    by (simp add: circle_elem_def cx_def cy_def)
  have "(\<forall>i \<in> {0 ..< segments s}. before (outer_wedge s i) (inner_wedge s i) (scene s w))
     \<and> (symmetry s = Mirror \<longrightarrow>
          (\<forall>i \<in> {0 ..< segments s}. before (mirror_outer s i) (mirror_inner s i) (scene s w)))
     \<and> (showWatermark s \<longrightarrow> before text_elem circle_elem (scene s w))
     \<and> last (scene s w) = circle_elem"
    by (simp add: before_scene_primary before_scene_reflected before_watermark last_scene)
  with dot distinct_scene [of s w] show ?thesis
    by blast
qed

theorem painter_order_witness:
  "valid (initial_spec\<lparr>symmetry := Mirror\<rparr>)
     \<and> before (outer_wedge (initial_spec\<lparr>symmetry := Mirror\<rparr>) 5)
          (inner_wedge (initial_spec\<lparr>symmetry := Mirror\<rparr>) 5)
          (scene (initial_spec\<lparr>symmetry := Mirror\<rparr>) True)
     \<and> before (mirror_outer (initial_spec\<lparr>symmetry := Mirror\<rparr>) 5)
          (mirror_inner (initial_spec\<lparr>symmetry := Mirror\<rparr>) 5)
          (scene (initial_spec\<lparr>symmetry := Mirror\<rparr>) True)
     \<and> before text_elem circle_elem (scene (initial_spec\<lparr>symmetry := Mirror\<rparr>) True)
     \<and> last (scene (initial_spec\<lparr>symmetry := Mirror\<rparr>) True) = circle_elem"
proof -
  have v: "valid (initial_spec\<lparr>symmetry := Mirror\<rparr>)"
    by (simp add: valid_def initial_spec_def)
  have m: "symmetry (initial_spec\<lparr>symmetry := Mirror\<rparr>) = Mirror"
    and sw: "showWatermark (initial_spec\<lparr>symmetry := Mirror\<rparr>)"
    and i: "(5::int) \<in> {0 ..< segments (initial_spec\<lparr>symmetry := Mirror\<rparr>)}"
    by (simp_all add: initial_spec_def)
  from painter_order [OF v, of True] m sw i v show ?thesis
    by blast
qed

subsection \<open>No clamping in the generator\<close>


lemma clamp_range: "3 \<le> clamp n 3 48 \<and> clamp n 3 48 \<le> 48"
  by (simp add: clamp_def)




subsection \<open>The watermark parameter\<close>

text \<open>
  Claim C10. The second parameter \<open>watermark\<close> of the component has no effect: for every
  spec, any two values of it give the same element tree and the same scene, and the
  watermark text is in the scene exactly when \<open>showWatermark\<close> of the spec is set.
\<close>

theorem watermark_parameter_unused:
  "MandalaCanvas s w = MandalaCanvas s w'
   \<and> scene s w = scene s w'
   \<and> (text_elem \<in> set (scene s w)) = showWatermark s"
proof -
  have "text_elem \<notin> set (primary s)" "text_elem \<notin> set (reflected s)"
    using tag_in_wedges [of text_elem s] by (auto simp: tag_of_fixed)
  moreover have "text_elem \<noteq> defs_elem s" "text_elem \<noteq> rect_elem" "text_elem \<noteq> circle_elem"
    by (simp_all add: defs_elem_def rect_elem_def text_elem_def circle_elem_def)
  ultimately have "(text_elem \<in> set (scene s w)) = showWatermark s"
    by (simp add: scene_shape)
  then show ?thesis
    by (simp add: MandalaCanvas_def scene_def)
qed

subsection \<open>Export\<close>

lemma cloneNode_id: "cloneNode n = n"
  by (induction n) (simp_all add: map_idI)

lemma transplant_element:
  "transplant (DElement ns t as cs) (DElement ns' t' as' cs') =
     (DElement ns t as [], DElement ns' t' as' (cs' @ cs))"
proof (induction cs arbitrary: cs')
  case Nil
  show ?case
    by (subst transplant.simps) simp
next
  case (Cons c cs)
  have "transplant (DElement ns t as (c # cs)) (DElement ns' t' as' cs') =
      transplant (DElement ns t as cs) (DElement ns' t' as' (cs' @ [c]))"
    by (subst transplant.simps) simp
  then show ?case
    by (simp add: Cons.IH)
qed

lemma transplant_text: "transplant (DText s) outer = (DText s, outer)"
  by (subst transplant.simps) simp

lemma build_outer_eq:
  "build_outer el =
     DElement svg_ns ''svg''
       [(''xmlns'', svg_ns), (''width'', ''420''), (''height'', ''420''),
        (''viewBox'', ''0 0 420 420'')]
       (childNodes el)"
  by (cases el)
    (simp_all add: build_outer_def createElementNS_def cloneNode_id transplant_element
      transplant_text)

text \<open>
  Claim C6. When no live render is mounted (\<open>svgRef.current\<close> is null), the callback returns
  without raising and makes no call at all: no document is built, no blob and no object
  URL are created, and nothing is clicked, so the download sink is not reached.
\<close>

theorem export_without_render:
  "exportSVG env None = (Returned, [])"
  by (simp add: exportSVG_def)

text \<open>
  Claim C7. When a live render \<open>el\<close> is mounted, the document built is a new \<open>svg\<close> root in
  the SVG namespace with the attributes \<open>xmlns\<close>, \<open>width = 420\<close>, \<open>height = 420\<close> and
  \<open>viewBox = 0 0 420 420\<close>, whose children are the children of \<open>el\<close> in their order (the
  callback takes the mounted tree and never the spec, so nothing is generated again). Its
  serialization is the content of a blob of content type \<open>image/svg+xml;charset=utf-8\<close>,
  that is of media type \<open>image/svg+xml\<close>, and the first three calls create the object URL
  of that blob, attach an anchor with that URL and the download name \<open>mandala.svg\<close>, and
  click it.
\<close>

theorem export_document:
  "(let doc = DElement ''http://www.w3.org/2000/svg'' ''svg''
                [(''xmlns'', ''http://www.w3.org/2000/svg''), (''width'', ''420''),
                 (''height'', ''420''), (''viewBox'', ''0 0 420 420'')]
                (childNodes el);
        blob = \<lparr>blob_parts = [serializeToString env doc],
                 blob_type = ''image/svg+xml;charset=utf-8''\<rparr>;
        a = \<lparr>href = createObjectURL env blob, download = ''mandala.svg''\<rparr>
    in build_outer el = doc
       \<and> take 3 (snd (exportSVG env (Some el))) =
           [CreateObjectURL blob (createObjectURL env blob), AppendToBody a, Click a]
       \<and> media_type (blob_type blob) = ''image/svg+xml'')"
  by (simp add: Let_def build_outer_eq exportSVG_def svg_ns_def media_type_def)

text \<open>
  Claim C8, as amended. The object URL is created before the anchor is attached and
  clicked, and when the click returns the anchor is removed and the URL is revoked: the
  calls are create, attach, click, remove, revoke, in this order. The callback has no
  exception handler: when the click raises, it ends there and the URL is not revoked.
\<close>

theorem export_effects:
  "(let blob = \<lparr>blob_parts = [serializeToString env (build_outer el)],
                 blob_type = ''image/svg+xml;charset=utf-8''\<rparr>;
        url = createObjectURL env blob;
        a = \<lparr>href = url, download = ''mandala.svg''\<rparr>
    in exportSVG env (Some el) =
         (if click_throws env a
          then (Thrown, [CreateObjectURL blob url, AppendToBody a, Click a])
          else (Returned,
                [CreateObjectURL blob url, AppendToBody a, Click a, Remove a, RevokeObjectURL url])))"
  by (simp add: Let_def exportSVG_def)

text \<open>
  The claim as stated fails: with a click that raises, the URL that was created is never
  revoked.
\<close>

theorem release_counterexample:
  "fst (exportSVG throwing_browser (Some live_dom)) = Thrown
   \<and> CreateObjectURL
        \<lparr>blob_parts = [''<svg/>''], blob_type = ''image/svg+xml;charset=utf-8''\<rparr> ''blob:0''
        \<in> set (snd (exportSVG throwing_browser (Some live_dom)))
   \<and> RevokeObjectURL ''blob:0'' \<notin> set (snd (exportSVG throwing_browser (Some live_dom)))"
  by (simp add: exportSVG_def throwing_browser_def working_browser_def Let_def)

end
